theory Spec2Isabelle
  imports Main "HOL-Library.AList" "HOL-Library.Word"
begin

section \<open>Data model\<close>

text \<open>
  The values \<^verbatim>\<open>resp.json()\<close> can return: \<^verbatim>\<open>None\<close>, booleans, unbounded integers,
  floats (kept as their 64-bit pattern; the program never computes with them), strings,
  lists and dicts with string keys. A Python dict keeps its keys in insertion order and
  holds every key once, so a dict is an association list; \<^verbatim>\<open>d[k] = v\<close> is
  \<^const>\<open>AList.update\<close>, which overwrites the value of a key that is present, in place,
  and appends a new key at the end.

  A \<^typ>\<open>string\<close> is a list of 8-bit characters. A Python string with characters
  beyond that range is read as its UTF-8 encoding: the bytes of \<^verbatim>\<open>.\<close>, \<^verbatim>\<open>$\<close> and
  \<^verbatim>\<open>_\<close> never occur inside a multi-byte sequence, so the replacement below is the same
  on both readings.
\<close>

datatype json =
    JNull
  | JBool bool
  | JInt int
  | JFloat "64 word"
  | JStr string
  | JList "json list"
  | JDict "(string \<times> json) list"

fun is_dict :: "json \<Rightarrow> bool" where
  "is_dict (JDict kvs) = True"
| "is_dict v = False"

fun is_list :: "json \<Rightarrow> bool" where
  "is_list (JList xs) = True"
| "is_list v = False"

text \<open>The invariant of Python dicts: no key twice, at every nesting depth.\<close>

fun wf_json :: "json \<Rightarrow> bool" where
  "wf_json (JDict kvs) = (distinct (map fst kvs) \<and> list_all (\<lambda>kv. wf_json (snd kv)) kvs)"
| "wf_json (JList xs) = list_all wf_json xs"
| "wf_json v = True"

section \<open>Sanitizer\<close>

text \<open>\<^verbatim>\<open>s.replace(old, new)\<close> for one-character \<^verbatim>\<open>old\<close> and \<^verbatim>\<open>new\<close>.\<close>

primrec str_replace :: "char \<Rightarrow> char \<Rightarrow> string \<Rightarrow> string" where
  "str_replace old new [] = []"
| "str_replace old new (c # cs) = (if c = old then new else c) # str_replace old new cs"

text \<open>The local \<^verbatim>\<open>new_key = k.replace(".", "_").replace("$", "_")\<close>.\<close>

definition new_key :: "string \<Rightarrow> string" where
  "new_key k = str_replace CHR ''$'' CHR ''_'' (str_replace CHR ''.'' CHR ''_'' k)"

text \<open>
  \<^verbatim>\<open>sanitize_for_mongo\<close>: the dict branch starts from the empty dict \<^verbatim>\<open>new\<close> and
  assigns, for every item of the input in order, the sanitized value to the rewritten key.
\<close>

fun sanitize_for_mongo :: "json \<Rightarrow> json" where
  "sanitize_for_mongo (JDict kvs) =
     JDict (fold (\<lambda>kv new. AList.update (new_key (fst kv)) (sanitize_for_mongo (snd kv)) new)
              kvs [])"
| "sanitize_for_mongo (JList xs) = JList (map sanitize_for_mongo xs)"
| "sanitize_for_mongo v = v"

section \<open>Errors, configuration and the outside world\<close>

text \<open>
  The exception classes the three steps raise. \<^verbatim>\<open>RequestException\<close> stands for what
  \<^verbatim>\<open>requests.get\<close> raises (connection failure, timeout, invalid URL), \<^verbatim>\<open>HTTPError\<close>
  for \<^verbatim>\<open>raise_for_status\<close>, \<^verbatim>\<open>JSONDecodeError\<close> for \<^verbatim>\<open>resp.json()\<close>,
  \<^verbatim>\<open>PyMongoError\<close> for the store client.
\<close>

datatype error =
    RuntimeError string
  | TypeError
  | AttributeError
  | RequestException
  | HTTPError nat
  | JSONDecodeError
  | PyMongoError

text \<open>\<^verbatim>\<open>isinstance(e, Exception)\<close>: every class above derives from \<^verbatim>\<open>Exception\<close>.\<close>

fun isinstance_Exception :: "error \<Rightarrow> bool" where
  "isinstance_Exception (RuntimeError m) = True"
| "isinstance_Exception TypeError = True"
| "isinstance_Exception AttributeError = True"
| "isinstance_Exception RequestException = True"
| "isinstance_Exception (HTTPError s) = True"
| "isinstance_Exception JSONDecodeError = True"
| "isinstance_Exception PyMongoError = True"

text \<open>The module-level constants read from the environment.\<close>

record config =
  CISA_KEV_URL :: "string option"
  MONGO_URI :: "string option"
  MONGO_DB :: string
  MONGO_COLLECTION :: string

text \<open>An HTTP response: its status and what \<^verbatim>\<open>resp.json()\<close> parses from the body, if it parses.\<close>

record response =
  status_code :: nat
  body :: "json option"

text \<open>
  What the libraries answer. \<^verbatim>\<open>requests_get url timeout\<close> is \<^verbatim>\<open>requests.get\<close>;
  \<^verbatim>\<open>utcnow_isoformat i\<close> is the text of \<^verbatim>\<open>datetime.now(timezone.utc).isoformat()\<close>
  at the \<open>i\<close>-th reading of the clock; \<^verbatim>\<open>get_collection uri db coll\<close> is the three lines
  that build the client and select database and collection; \<^verbatim>\<open>insert_many docs\<close> is
  the bulk insert, answering \<^verbatim>\<open>len(result.inserted_ids)\<close>.
\<close>

record world =
  requests_get :: "string option \<Rightarrow> nat \<Rightarrow> error + response"
  utcnow_isoformat :: "nat \<Rightarrow> string"
  get_collection :: "string \<Rightarrow> string \<Rightarrow> string \<Rightarrow> error + unit"
  insert_many :: "json list \<Rightarrow> error + nat"

text \<open>
  The observable effects of a run, in order: calls of the logger (the level and which
  message, with the values formatted into it) and calls of the libraries.
\<close>

datatype level = INFO | WARNING | ERROR

datatype message =
    Extracting "string option"
  | Transforming
  | Inserted nat string string
  | NoDocuments
  | Completed
  | Failed error

datatype event =
    Log level message
  | HttpGet "string option" nat
  | Connect string string string
  | InsertMany "json list"

section \<open>Fetcher\<close>

text \<open>
  \<^verbatim>\<open>extract\<close> of the source is \<open>extract_data\<close> here (\<^verbatim>\<open>extract\<close> is a command
  of Isabelle/HOL). It logs, issues the one GET with the timeout of 30, raises on a
  status from 400 to 599 and parses the body.
\<close>

definition raise_for_status :: "response \<Rightarrow> error + unit" where
  "raise_for_status resp =
     (if 400 \<le> status_code resp \<and> status_code resp < 600
      then Inl (HTTPError (status_code resp)) else Inr ())"

definition resp_json :: "response \<Rightarrow> error + json" where
  "resp_json resp = (case body resp of None \<Rightarrow> Inl JSONDecodeError | Some v \<Rightarrow> Inr v)"

definition extract_data :: "world \<Rightarrow> string option \<Rightarrow> event list \<Rightarrow> (error + json) \<times> event list" where
  "extract_data w url tr =
     (let tr1 = tr @ [Log INFO (Extracting url), HttpGet url 30] in
      case requests_get w url 30 of
        Inl e \<Rightarrow> (Inl e, tr1)
      | Inr resp \<Rightarrow>
          (case raise_for_status resp of
             Inl e \<Rightarrow> (Inl e, tr1)
           | Inr u \<Rightarrow> (resp_json resp, tr1)))"

section \<open>Transformer\<close>

text \<open>\<^verbatim>\<open>raw_data.get(key, default)\<close>: only a dict has the method.\<close>

fun py_get :: "json \<Rightarrow> string \<Rightarrow> json \<Rightarrow> error + json" where
  "py_get (JDict kvs) k d = Inr (case map_of kvs k of None \<Rightarrow> d | Some v \<Rightarrow> v)"
| "py_get v k d = Inl AttributeError"

text \<open>
  \<^verbatim>\<open>for item in vulnerabilities\<close>: a list yields its elements, a dict its keys, a string
  its characters; nothing else can be iterated. (The items of a string are strings, so the
  first of them already makes the assignment in the loop fail, however the characters are
  counted.)
\<close>

fun py_iter :: "json \<Rightarrow> error + json list" where
  "py_iter (JList xs) = Inr xs"
| "py_iter (JDict kvs) = Inr (map (\<lambda>kv. JStr (fst kv)) kvs)"
| "py_iter (JStr s) = Inr (map (\<lambda>c. JStr [c]) s)"
| "py_iter v = Inl TypeError"

text \<open>\<^verbatim>\<open>doc[key] = value\<close> with a string key: only a dict accepts it.\<close>

fun py_setitem :: "json \<Rightarrow> string \<Rightarrow> json \<Rightarrow> error + json" where
  "py_setitem (JDict kvs) k v = Inr (JDict (AList.update k v kvs))"
| "py_setitem d k v = Inl TypeError"

text \<open>The loop of \<^verbatim>\<open>transform\<close>; \<open>i\<close> counts the readings of the clock so far.\<close>

fun transform_loop :: "world \<Rightarrow> nat \<Rightarrow> json list \<Rightarrow> json list \<Rightarrow> error + json list" where
  "transform_loop w i [] docs = Inr docs"
| "transform_loop w i (item # items) docs =
     (case py_setitem (sanitize_for_mongo item) ''ingested_at'' (JStr (utcnow_isoformat w i)) of
        Inl e \<Rightarrow> Inl e
      | Inr doc \<Rightarrow> transform_loop w (Suc i) items (docs @ [doc]))"

definition transform :: "world \<Rightarrow> json \<Rightarrow> event list \<Rightarrow> (error + json list) \<times> event list" where
  "transform w raw_data tr =
     (let tr1 = tr @ [Log INFO Transforming] in
      case py_get raw_data ''vulnerabilities'' (JList []) of
        Inl e \<Rightarrow> (Inl e, tr1)
      | Inr vulnerabilities \<Rightarrow>
          (case py_iter vulnerabilities of
             Inl e \<Rightarrow> (Inl e, tr1)
           | Inr items \<Rightarrow> (transform_loop w 0 items [], tr1)))"

section \<open>Loader\<close>

text \<open>
  \<^verbatim>\<open>load_to_mongo\<close> has no \<^verbatim>\<open>return\<close> statement: where it does not raise, its value is
  \<^verbatim>\<open>None\<close>, written \<^const>\<open>JNull\<close>. \<^verbatim>\<open>not MONGO_URI\<close> holds for an unset variable and for
  the empty string.
\<close>

definition load_to_mongo :: "config \<Rightarrow> world \<Rightarrow> json list \<Rightarrow> event list \<Rightarrow> (error + json) \<times> event list" where
  "load_to_mongo cfg w docs tr =
     (case MONGO_URI cfg of
        None \<Rightarrow> (Inl (RuntimeError ''MONGO_URI not set in environment variables.''), tr)
      | Some uri \<Rightarrow>
          if uri = [] then (Inl (RuntimeError ''MONGO_URI not set in environment variables.''), tr)
          else
            (let tr1 = tr @ [Connect uri (MONGO_DB cfg) (MONGO_COLLECTION cfg)] in
             case get_collection w uri (MONGO_DB cfg) (MONGO_COLLECTION cfg) of
               Inl e \<Rightarrow> (Inl e, tr1)
             | Inr coll \<Rightarrow>
                 if docs \<noteq> [] then
                   (let tr2 = tr1 @ [InsertMany docs] in
                    case insert_many w docs of
                      Inl e \<Rightarrow> (Inl e, tr2)
                    | Inr n \<Rightarrow>
                        (Inr JNull,
                         tr2 @ [Log INFO (Inserted n (MONGO_DB cfg) (MONGO_COLLECTION cfg))]))
                 else (Inr JNull, tr1 @ [Log WARNING NoDocuments])))"

section \<open>Orchestrator\<close>

text \<open>The body of the \<^verbatim>\<open>try\<close> block: the first step that raises ends it.\<close>

definition run_try :: "config \<Rightarrow> world \<Rightarrow> event list \<Rightarrow> (error + unit) \<times> event list" where
  "run_try cfg w tr =
     (case extract_data w (CISA_KEV_URL cfg) tr of
        (Inl e, tr1) \<Rightarrow> (Inl e, tr1)
      | (Inr raw, tr1) \<Rightarrow>
          (case transform w raw tr1 of
             (Inl e, tr2) \<Rightarrow> (Inl e, tr2)
           | (Inr docs, tr2) \<Rightarrow>
               (case load_to_mongo cfg w docs tr2 of
                  (Inl e, tr3) \<Rightarrow> (Inl e, tr3)
                | (Inr r, tr3) \<Rightarrow> (Inr (), tr3 @ [Log INFO Completed]))))"

text \<open>
  \<^verbatim>\<open>run\<close>: \<^verbatim>\<open>except Exception as e\<close> handles an exception of class \<^verbatim>\<open>Exception\<close>
  by logging it; any other would leave \<^verbatim>\<open>run\<close>. The Python function returns
  \<^verbatim>\<open>None\<close>; the value here tells which way the run ended.
\<close>

datatype run_state = DONE | FAILED

definition run :: "config \<Rightarrow> world \<Rightarrow> event list \<Rightarrow> (error + run_state) \<times> event list" where
  "run cfg w tr =
     (case run_try cfg w tr of
        (Inl e, tr') \<Rightarrow>
          if isinstance_Exception e then (Inr FAILED, tr' @ [Log ERROR (Failed e)])
          else (Inl e, tr')
      | (Inr u, tr') \<Rightarrow> (Inr DONE, tr'))"

section \<open>Notions used by the properties\<close>

text \<open>\<^verbatim>\<open>d.items()\<close> of a dict; no items for any other value.\<close>

fun dict_items :: "json \<Rightarrow> (string \<times> json) list" where
  "dict_items (JDict kvs) = kvs"
| "dict_items v = []"

text \<open>The assignments the dict branch of the sanitizer performs, in order.\<close>

definition rewritten :: "(string \<times> json) list \<Rightarrow> (string \<times> json) list" where
  "rewritten kvs = map (\<lambda>kv. (new_key (fst kv), sanitize_for_mongo (snd kv))) kvs"

text \<open>
  Every key of the value, at every depth, is free of \<^verbatim>\<open>.\<close> and \<^verbatim>\<open>$\<close>.
\<close>

fun keys_clean :: "json \<Rightarrow> bool" where
  "keys_clean (JDict kvs) =
     list_all (\<lambda>kv. CHR ''.'' \<notin> set (fst kv) \<and> CHR ''$'' \<notin> set (fst kv) \<and> keys_clean (snd kv)) kvs"
| "keys_clean (JList xs) = list_all keys_clean xs"
| "keys_clean v = True"

text \<open>
  The shape of a value: the nesting of mappings and sequences with the leaves in place,
  the keys forgotten.
\<close>

datatype shape = Leaf json | Seq "shape list" | Mapping "shape list"

fun shape_of :: "json \<Rightarrow> shape" where
  "shape_of (JDict kvs) = Mapping (map (\<lambda>kv. shape_of (snd kv)) kvs)"
| "shape_of (JList xs) = Seq (map shape_of xs)"
| "shape_of v = Leaf v"

text \<open>No dict of the value, at any depth, has two keys that are rewritten to the same key.\<close>

fun collision_free :: "json \<Rightarrow> bool" where
  "collision_free (JDict kvs) =
     (distinct (map (\<lambda>kv. new_key (fst kv)) kvs) \<and> list_all (\<lambda>kv. collision_free (snd kv)) kvs)"
| "collision_free (JList xs) = list_all collision_free xs"
| "collision_free v = True"

text \<open>The events that reach the document store.\<close>

fun is_store_call :: "event \<Rightarrow> bool" where
  "is_store_call (Connect uri db coll) = True"
| "is_store_call (InsertMany docs) = True"
| "is_store_call ev = False"

section \<open>Dict assignment in a loop\<close>

lemma str_replace_map: "str_replace old new s = map (\<lambda>c. if c = old then new else c) s"
  by (induction s) auto

lemma new_key_map:
  "new_key k = map (\<lambda>c. if c = CHR ''.'' \<or> c = CHR ''$'' then CHR ''_'' else c) k"
  by (simp add: new_key_def str_replace_map)

lemma fold_update_map_of:
  "map_of (fold (\<lambda>p. AList.update (fst p) (snd p)) ps acc) = map_of acc ++ map_of (rev ps)"
  by (induction ps arbitrary: acc) (simp_all add: update_conv' map_add_assoc[symmetric])

lemma fold_update_keys:
  "fst ` set (fold (\<lambda>p. AList.update (fst p) (snd p)) ps acc) = fst ` set acc \<union> fst ` set ps"
  by (induction ps arbitrary: acc) (simp_all add: dom_update Un_ac)

lemma fold_update_distinct:
  "distinct (map fst acc) \<Longrightarrow>
   distinct (map fst (fold (\<lambda>p. AList.update (fst p) (snd p)) ps acc))"
  by (induction ps arbitrary: acc) (simp_all add: distinct_update)

lemma update_fresh: "k \<notin> fst ` set acc \<Longrightarrow> AList.update k v acc = acc @ [(k, v)]"
  by (induction acc) auto

lemma fold_update_append:
  "distinct (map fst ps) \<Longrightarrow> fst ` set ps \<inter> fst ` set acc = {} \<Longrightarrow>
   fold (\<lambda>p. AList.update (fst p) (snd p)) ps acc = acc @ ps"
proof (induction ps arbitrary: acc)
  case Nil
  then show ?case by simp
next
  case (Cons p ps)
  have "AList.update (fst p) (snd p) acc = acc @ [p]"
    using Cons.prems(2) by (simp add: update_fresh)
  with Cons show ?case by auto
qed

lemma set_update_subset: "set (AList.update k v acc) \<subseteq> insert (k, v) (set acc)"
  by (induction acc) auto

lemma fold_update_set:
  "set (fold (\<lambda>p. AList.update (fst p) (snd p)) ps acc) \<subseteq> set acc \<union> set ps"
proof (induction ps arbitrary: acc)
  case Nil
  then show ?case by simp
next
  case (Cons p ps)
  have "set (AList.update (fst p) (snd p) acc) \<subseteq> insert p (set acc)"
    using set_update_subset[of "fst p" "snd p" acc] by simp
  with Cons.IH[of "AList.update (fst p) (snd p) acc"] show ?case by auto
qed

lemma sanitize_fold_map:
  "fold (\<lambda>kv new. AList.update (new_key (fst kv)) (sanitize_for_mongo (snd kv)) new) kvs acc
   = fold (\<lambda>p. AList.update (fst p) (snd p)) (rewritten kvs) acc"
  by (induction kvs arbitrary: acc) (simp_all add: rewritten_def)

lemma sanitize_dict:
  "sanitize_for_mongo (JDict kvs)
   = JDict (fold (\<lambda>p. AList.update (fst p) (snd p)) (rewritten kvs) [])"
  by (simp add: sanitize_fold_map)

lemma sanitize_dict_no_collision:
  "distinct (map (\<lambda>kv. new_key (fst kv)) kvs) \<Longrightarrow>
   sanitize_for_mongo (JDict kvs) = JDict (rewritten kvs)"
  unfolding sanitize_dict
  by (subst fold_update_append) (simp_all add: rewritten_def comp_def)

section \<open>Properties of the sanitizer\<close>

text \<open>
  C1. The rewritten key is the key with every \<^verbatim>\<open>.\<close> and every \<^verbatim>\<open>$\<close> replaced by
  \<^verbatim>\<open>_\<close>. Sanitizing a dict gives a dict whose keys are exactly the rewritten keys of
  the input, each once, and looking a key up gives the sanitized value of the last input
  item rewritten to it; where no two keys are rewritten to the same key, the result is the
  input with every key rewritten and every value sanitized, in the same order. A list is
  sanitized element by element, in order. Every other value is returned as it is. The
  record \<^verbatim>\<open>{"cve.id": "CVE-2024-0001", "notes": {"a.b$c": 1}}\<close> becomes
  \<^verbatim>\<open>{"cve_id": "CVE-2024-0001", "notes": {"a_b_c": 1}}\<close>.
\<close>

theorem sanitize_for_mongo_rewrites:
  "new_key k = map (\<lambda>c. if c = CHR ''.'' \<or> c = CHR ''$'' then CHR ''_'' else c) k
   \<and> (\<exists>new. sanitize_for_mongo (JDict kvs) = JDict new
         \<and> distinct (map fst new)
         \<and> set (map fst new) = new_key ` set (map fst kvs)
         \<and> map_of new
             = map_of (rev (map (\<lambda>kv. (new_key (fst kv), sanitize_for_mongo (snd kv))) kvs)))
   \<and> (distinct (map (\<lambda>kv. new_key (fst kv)) kvs) \<longrightarrow>
        sanitize_for_mongo (JDict kvs)
          = JDict (map (\<lambda>kv. (new_key (fst kv), sanitize_for_mongo (snd kv))) kvs))
   \<and> sanitize_for_mongo (JList xs) = JList (map sanitize_for_mongo xs)
   \<and> sanitize_for_mongo JNull = JNull
   \<and> sanitize_for_mongo (JBool b) = JBool b
   \<and> sanitize_for_mongo (JInt n) = JInt n
   \<and> sanitize_for_mongo (JFloat x) = JFloat x
   \<and> sanitize_for_mongo (JStr s) = JStr s
   \<and> sanitize_for_mongo
        (JDict [(''cve.id'', JStr ''CVE-2024-0001''), (''notes'', JDict [(''a.b$c'', JInt 1)])])
      = JDict [(''cve_id'', JStr ''CVE-2024-0001''), (''notes'', JDict [(''a_b_c'', JInt 1)])]"
proof -
  let ?new = "fold (\<lambda>p. AList.update (fst p) (snd p)) (rewritten kvs) []"
  have d: "sanitize_for_mongo (JDict kvs) = JDict ?new"
    by (rule sanitize_dict)
  have 1: "distinct (map fst ?new)"
    by (simp add: fold_update_distinct)
  have 2: "set (map fst ?new) = new_key ` set (map fst kvs)"
    by (simp add: fold_update_keys rewritten_def image_image)
  have 3: "map_of ?new = map_of (rev (rewritten kvs))"
    by (simp add: fold_update_map_of)
  have ex: "sanitize_for_mongo
        (JDict [(''cve.id'', JStr ''CVE-2024-0001''), (''notes'', JDict [(''a.b$c'', JInt 1)])])
      = JDict [(''cve_id'', JStr ''CVE-2024-0001''), (''notes'', JDict [(''a_b_c'', JInt 1)])]"
    by (simp add: new_key_def)
  show ?thesis
    using d 1 2 3 ex sanitize_dict_no_collision[of kvs]
    by (simp add: new_key_map rewritten_def)
qed

theorem sanitize_for_mongo_rewrites_witness:
  "distinct (map (\<lambda>kv. new_key (fst kv))
      [(''a.b'', JInt 1), (''a$c'', JList [JDict [(''$'', JNull)]])])
   \<and> sanitize_for_mongo (JDict [(''a.b'', JInt 1), (''a$c'', JList [JDict [(''$'', JNull)]])])
       = JDict [(''a_b'', JInt 1), (''a_c'', JList [JDict [(''_'', JNull)]])]"
  using sanitize_for_mongo_rewrites
    [of "''a''" "[(''a.b'', JInt 1), (''a$c'', JList [JDict [(''$'', JNull)]])]" "[]" True 0 0 "''''"]
  by (simp add: new_key_def)

section \<open>Sanitized values\<close>

lemma new_key_clean: "CHR ''.'' \<notin> set (new_key k) \<and> CHR ''$'' \<notin> set (new_key k)"
  by (auto simp: new_key_map)

lemma new_key_id: "CHR ''.'' \<notin> set k \<Longrightarrow> CHR ''$'' \<notin> set k \<Longrightarrow> new_key k = k"
  by (induction k) (auto simp: new_key_map)

lemma sanitize_id: "wf_json x \<Longrightarrow> keys_clean x \<Longrightarrow> sanitize_for_mongo x = x"
proof (induction x rule: sanitize_for_mongo.induct)
  case (1 kvs)
  have "rewritten kvs = kvs"
    unfolding rewritten_def
  proof (rule map_idI)
    fix kv assume kv: "kv \<in> set kvs"
    with "1.prems" have "new_key (fst kv) = fst kv" "wf_json (snd kv)" "keys_clean (snd kv)"
      by (auto simp: list_all_iff new_key_id)
    with "1.IH"[OF kv] show "(new_key (fst kv), sanitize_for_mongo (snd kv)) = kv"
      by (cases kv) simp
  qed
  moreover have "distinct (map fst kvs)" using "1.prems" by simp
  ultimately show ?case
    unfolding sanitize_dict by (simp add: fold_update_append)
next
  case (2 xs)
  then show ?case by (simp add: list_all_iff map_idI)
qed simp_all

lemma sanitize_wf_clean: "wf_json (sanitize_for_mongo x) \<and> keys_clean (sanitize_for_mongo x)"
proof (induction x rule: sanitize_for_mongo.induct)
  case (1 kvs)
  let ?new = "fold (\<lambda>p. AList.update (fst p) (snd p)) (rewritten kvs) []"
  have sub: "set ?new \<subseteq> set (rewritten kvs)"
    using fold_update_set[of "rewritten kvs" "[]"] by simp
  have "\<forall>p \<in> set ?new. CHR ''.'' \<notin> set (fst p) \<and> CHR ''$'' \<notin> set (fst p)
          \<and> wf_json (snd p) \<and> keys_clean (snd p)"
  proof
    fix p assume "p \<in> set ?new"
    with sub obtain kv where kv: "kv \<in> set kvs" and p: "p = (new_key (fst kv), sanitize_for_mongo (snd kv))"
      by (auto simp: rewritten_def)
    with "1.IH"[OF kv] show "CHR ''.'' \<notin> set (fst p) \<and> CHR ''$'' \<notin> set (fst p)
          \<and> wf_json (snd p) \<and> keys_clean (snd p)"
      by (simp add: new_key_clean)
  qed
  then show ?case
    unfolding sanitize_dict by (simp add: fold_update_distinct list_all_iff)
next
  case (2 xs)
  then show ?case by (simp add: list_all_iff)
qed simp_all

lemma sanitize_idem: "sanitize_for_mongo (sanitize_for_mongo x) = sanitize_for_mongo x"
  by (simp add: sanitize_id sanitize_wf_clean)

section \<open>The loop of the transformer\<close>

lemma is_dict_sanitize: "is_dict (sanitize_for_mongo x) = is_dict x"
  by (cases x) simp_all

lemma is_dict_items: "is_dict d \<Longrightarrow> d = JDict (dict_items d)"
  by (cases d) simp_all

lemma py_setitem_non_dict: "\<not> is_dict d \<Longrightarrow> py_setitem d k v = Inl TypeError"
  by (cases d) simp_all

lemma py_setitem_dict: "is_dict d \<Longrightarrow> py_setitem d k v = Inr (JDict (AList.update k v (dict_items d)))"
  by (cases d) simp_all

lemma transform_loop_dicts:
  "list_all is_dict items \<Longrightarrow>
   transform_loop w i items acc =
     Inr (acc @ map (\<lambda>p. JDict (AList.update ''ingested_at'' (JStr (utcnow_isoformat w (fst p)))
                              (dict_items (sanitize_for_mongo (snd p)))))
                (enumerate i items))"
proof (induction items arbitrary: i acc)
  case Nil
  then show ?case by simp
next
  case (Cons item items)
  then have "is_dict (sanitize_for_mongo item)" by (simp add: is_dict_sanitize)
  from py_setitem_dict[OF this] Cons show ?case by simp
qed

lemma transform_loop_non_dict:
  "\<not> list_all is_dict items \<Longrightarrow> transform_loop w i items acc = Inl TypeError"
proof (induction items arbitrary: i acc)
  case Nil
  then show ?case by simp
next
  case (Cons item items)
  show ?case
  proof (cases "is_dict item")
    case True
    then have "is_dict (sanitize_for_mongo item)" by (simp add: is_dict_sanitize)
    from py_setitem_dict[OF this] Cons True show ?thesis by simp
  next
    case False
    then have "\<not> is_dict (sanitize_for_mongo item)" by (simp add: is_dict_sanitize)
    from py_setitem_non_dict[OF this] show ?thesis by simp
  qed
qed

lemma transform_dict:
  "transform w (JDict kvs) tr =
    (case py_iter (case map_of kvs ''vulnerabilities'' of None \<Rightarrow> JList [] | Some v \<Rightarrow> v) of
       Inl e \<Rightarrow> Inl e | Inr items \<Rightarrow> transform_loop w 0 items [],
     tr @ [Log INFO Transforming])"
  by (simp add: transform_def Let_def split: sum.splits)

lemma py_setitem_settled:
  assumes "py_setitem (sanitize_for_mongo item) ''ingested_at'' (JStr ts) = Inr doc"
  shows "is_dict doc \<and> wf_json doc \<and> keys_clean doc"
proof (cases "sanitize_for_mongo item")
  case (JDict d)
  have wc: "wf_json (JDict d)" "keys_clean (JDict d)"
    using sanitize_wf_clean[of item] JDict by simp_all
  have doc: "doc = JDict (AList.update ''ingested_at'' (JStr ts) d)"
    using assms JDict by simp
  have sub: "set (AList.update ''ingested_at'' (JStr ts) d) \<subseteq> insert (''ingested_at'', JStr ts) (set d)"
    by (rule set_update_subset)
  have "distinct (map fst (AList.update ''ingested_at'' (JStr ts) d))"
    using wc(1) by (simp add: distinct_update)
  moreover have "\<forall>p \<in> set (AList.update ''ingested_at'' (JStr ts) d).
      CHR ''.'' \<notin> set (fst p) \<and> CHR ''$'' \<notin> set (fst p) \<and> wf_json (snd p) \<and> keys_clean (snd p)"
  proof
    fix p assume "p \<in> set (AList.update ''ingested_at'' (JStr ts) d)"
    with sub have "p = (''ingested_at'', JStr ts) \<or> p \<in> set d" by auto
    then show "CHR ''.'' \<notin> set (fst p) \<and> CHR ''$'' \<notin> set (fst p) \<and> wf_json (snd p) \<and> keys_clean (snd p)"
      using wc by (auto simp: list_all_iff)
  qed
  ultimately show ?thesis using doc by (simp add: list_all_iff)
qed (use assms in simp_all)

lemma transform_loop_settled:
  "transform_loop w i items acc = Inr docs \<Longrightarrow>
   list_all (\<lambda>d. is_dict d \<and> wf_json d \<and> keys_clean d) acc \<Longrightarrow>
   list_all (\<lambda>d. is_dict d \<and> wf_json d \<and> keys_clean d) docs"
proof (induction items arbitrary: i acc)
  case Nil
  then show ?case by simp
next
  case (Cons item items)
  from Cons.prems(1) obtain doc where
    doc: "py_setitem (sanitize_for_mongo item) ''ingested_at'' (JStr (utcnow_isoformat w i)) = Inr doc"
    and rest: "transform_loop w (Suc i) items (acc @ [doc]) = Inr docs"
    by (auto split: sum.splits)
  from py_setitem_settled[OF doc] Cons.prems(2)
  have "list_all (\<lambda>d. is_dict d \<and> wf_json d \<and> keys_clean d) (acc @ [doc])" by simp
  from Cons.IH[OF rest this] show ?case .
qed

lemma transform_settled:
  assumes "fst (transform w raw tr) = Inr docs"
  shows "list_all (\<lambda>d. is_dict d \<and> wf_json d \<and> keys_clean d) docs"
proof -
  from assms obtain items where "transform_loop w 0 items [] = Inr docs"
    by (auto simp: transform_def Let_def split: sum.splits)
  from transform_loop_settled[OF this] show ?thesis by simp
qed

section \<open>Idempotence\<close>

text \<open>
  C8. Sanitizing is idempotent: sanitizing a sanitized value gives the same value. More
  generally a well-formed value whose keys are all free of \<^verbatim>\<open>.\<close> and \<^verbatim>\<open>$\<close> is
  returned as it is. The documents \<^verbatim>\<open>transform\<close> returns are such values, so
  sanitizing them again changes nothing, and a second \<^verbatim>\<open>transform\<close> pass over them
  gives the same documents with only \<^verbatim>\<open>ingested_at\<close> set to the readings of the clock
  of the second pass.
\<close>

theorem sanitize_for_mongo_idempotent:
  "sanitize_for_mongo (sanitize_for_mongo x) = sanitize_for_mongo x
   \<and> (wf_json x \<and> keys_clean x \<longrightarrow> sanitize_for_mongo x = x)
   \<and> (fst (transform w raw tr) = Inr docs \<longrightarrow>
        map sanitize_for_mongo docs = docs
        \<and> fst (transform w_again (JDict [(''vulnerabilities'', JList docs)]) tr_again)
            = Inr (map (\<lambda>p. JDict (AList.update ''ingested_at'' (JStr (utcnow_isoformat w_again (fst p)))
                                     (dict_items (snd p))))
                     (enumerate 0 docs)))"
proof -
  have "map sanitize_for_mongo docs = docs
        \<and> fst (transform w_again (JDict [(''vulnerabilities'', JList docs)]) tr_again)
            = Inr (map (\<lambda>p. JDict (AList.update ''ingested_at'' (JStr (utcnow_isoformat w_again (fst p)))
                                     (dict_items (snd p))))
                     (enumerate 0 docs))"
    if t: "fst (transform w raw tr) = Inr docs"
  proof -
    from transform_settled[OF t]
    have good: "\<forall>d \<in> set docs. is_dict d \<and> sanitize_for_mongo d = d"
      by (auto simp: list_all_iff sanitize_id)
    then have dicts: "list_all is_dict docs" by (simp add: list_all_iff)
    have "\<forall>p \<in> set (enumerate 0 docs). sanitize_for_mongo (snd p) = snd p"
      using good by (auto simp: in_set_enumerate_eq)
    then have "map (\<lambda>p. JDict (AList.update ''ingested_at'' (JStr (utcnow_isoformat w_again (fst p)))
                              (dict_items (sanitize_for_mongo (snd p))))) (enumerate 0 docs)
        = map (\<lambda>p. JDict (AList.update ''ingested_at'' (JStr (utcnow_isoformat w_again (fst p)))
                              (dict_items (snd p)))) (enumerate 0 docs)"
      by (intro map_cong) simp_all
    with good show ?thesis
      by (simp add: transform_dict transform_loop_dicts[OF dicts] map_idI)
  qed
  then show ?thesis
    using sanitize_idem[of x] sanitize_id[of x] by blast
qed

text \<open>A record with clean keys, and a feed of one record transformed twice.\<close>

theorem sanitize_for_mongo_idempotent_witness:
  "wf_json (JDict [(''cve_id'', JStr ''CVE-1''), (''notes'', JList [JDict [(''a_b'', JInt 1)]])])
   \<and> keys_clean (JDict [(''cve_id'', JStr ''CVE-1''), (''notes'', JList [JDict [(''a_b'', JInt 1)]])])
   \<and> sanitize_for_mongo
        (JDict [(''cve_id'', JStr ''CVE-1''), (''notes'', JList [JDict [(''a_b'', JInt 1)]])])
      = JDict [(''cve_id'', JStr ''CVE-1''), (''notes'', JList [JDict [(''a_b'', JInt 1)]])]
   \<and> fst (transform
        \<lparr>requests_get = (\<lambda>url t. Inl RequestException),
         utcnow_isoformat = (\<lambda>i. ''2024-01-01T00:00:00+00:00''),
         get_collection = (\<lambda>uri db coll. Inr ()),
         insert_many = (\<lambda>ds. Inr (length ds))\<rparr>
        (JDict [(''vulnerabilities'', JList [JDict [(''cve.id'', JStr ''CVE-1'')]])]) [])
      = Inr [JDict [(''cve_id'', JStr ''CVE-1''),
                    (''ingested_at'', JStr ''2024-01-01T00:00:00+00:00'')]]
   \<and> fst (transform
        \<lparr>requests_get = (\<lambda>url t. Inl RequestException),
         utcnow_isoformat = (\<lambda>i. ''2024-06-30T12:00:00+00:00''),
         get_collection = (\<lambda>uri db coll. Inr ()),
         insert_many = (\<lambda>ds. Inr (length ds))\<rparr>
        (JDict [(''vulnerabilities'',
                 JList [JDict [(''cve_id'', JStr ''CVE-1''),
                               (''ingested_at'', JStr ''2024-01-01T00:00:00+00:00'')]])]) [])
      = Inr [JDict [(''cve_id'', JStr ''CVE-1''),
                    (''ingested_at'', JStr ''2024-06-30T12:00:00+00:00'')]]"
  using sanitize_for_mongo_idempotent
    [where x = "JDict [(''cve_id'', JStr ''CVE-1''), (''notes'', JList [JDict [(''a_b'', JInt 1)]])]"
       and w = "\<lparr>requests_get = (\<lambda>url t. Inl RequestException),
         utcnow_isoformat = (\<lambda>i. ''2024-01-01T00:00:00+00:00''),
         get_collection = (\<lambda>uri db coll. Inr ()),
         insert_many = (\<lambda>ds. Inr (length ds))\<rparr>"
       and raw = "JDict [(''vulnerabilities'', JList [JDict [(''cve.id'', JStr ''CVE-1'')]])]"
       and tr = "[]"
       and docs = "[JDict [(''cve_id'', JStr ''CVE-1''),
                    (''ingested_at'', JStr ''2024-01-01T00:00:00+00:00'')]]"
       and w_again = "\<lparr>requests_get = (\<lambda>url t. Inl RequestException),
         utcnow_isoformat = (\<lambda>i. ''2024-06-30T12:00:00+00:00''),
         get_collection = (\<lambda>uri db coll. Inr ()),
         insert_many = (\<lambda>ds. Inr (length ds))\<rparr>"
       and tr_again = "[]"]
  by (simp add: transform_def new_key_def)

section \<open>Shape\<close>

lemma sanitize_shape: "collision_free x \<Longrightarrow> shape_of (sanitize_for_mongo x) = shape_of x"
proof (induction x rule: sanitize_for_mongo.induct)
  case (1 kvs)
  then have d: "distinct (map (\<lambda>kv. new_key (fst kv)) kvs)" by simp
  have "map (\<lambda>kv. shape_of (snd kv)) (rewritten kvs) = map (\<lambda>kv. shape_of (snd kv)) kvs"
    unfolding rewritten_def using 1 by (simp add: list_all_iff)
  then show ?case
    unfolding sanitize_dict_no_collision[OF d] by simp
next
  case (2 xs)
  then show ?case by (simp add: list_all_iff)
qed simp_all

lemma sanitize_dict_length:
  "length (dict_items (sanitize_for_mongo (JDict kvs))) = card (new_key ` set (map fst kvs))"
proof -
  let ?new = "fold (\<lambda>p. AList.update (fst p) (snd p)) (rewritten kvs) []"
  have "distinct (map fst ?new)" by (simp add: fold_update_distinct)
  then have "length ?new = card (set (map fst ?new))"
    using distinct_card[of "map fst ?new"] by simp
  also have "set (map fst ?new) = new_key ` set (map fst kvs)"
    by (simp add: fold_update_keys rewritten_def image_image)
  finally show ?thesis unfolding sanitize_dict by simp
qed

text \<open>
  C9. Sanitizing preserves the shape. A dict stays a dict and a list stays a list; every
  other value is returned as it is. A sanitized dict never has more items than the input;
  for an input dict (no key twice) it has the same number of items exactly when no two
  keys are rewritten to the same key, and fewer otherwise. A sanitized list has the length
  of the input. Where no dict at any depth has colliding keys, the whole nesting and every
  leaf are the same.
\<close>

theorem sanitize_for_mongo_preserves_shape:
  "is_dict (sanitize_for_mongo x) = is_dict x
   \<and> is_list (sanitize_for_mongo x) = is_list x
   \<and> (\<not> is_dict x \<and> \<not> is_list x \<longrightarrow> sanitize_for_mongo x = x)
   \<and> length (dict_items (sanitize_for_mongo (JDict kvs))) \<le> length kvs
   \<and> (distinct (map fst kvs) \<longrightarrow>
        (length (dict_items (sanitize_for_mongo (JDict kvs))) = length kvs)
          = inj_on new_key (set (map fst kvs)))
   \<and> (\<exists>ys. sanitize_for_mongo (JList xs) = JList ys \<and> length ys = length xs)
   \<and> (collision_free x \<longrightarrow> shape_of (sanitize_for_mongo x) = shape_of x)"
proof -
  have a: "is_dict (sanitize_for_mongo x) = is_dict x" by (rule is_dict_sanitize)
  have b: "is_list (sanitize_for_mongo x) = is_list x" by (cases x) simp_all
  have c: "\<not> is_dict x \<and> \<not> is_list x \<longrightarrow> sanitize_for_mongo x = x" by (cases x) simp_all
  have "card (new_key ` set (map fst kvs)) \<le> card (set (map fst kvs))"
    by (rule card_image_le) simp
  also have "\<dots> \<le> length kvs"
    using card_length[of "map fst kvs"] by simp
  finally have d: "length (dict_items (sanitize_for_mongo (JDict kvs))) \<le> length kvs"
    by (simp only: sanitize_dict_length)
  have e: "(length (dict_items (sanitize_for_mongo (JDict kvs))) = length kvs)
          = inj_on new_key (set (map fst kvs))" if "distinct (map fst kvs)"
  proof -
    from that have "card (set (map fst kvs)) = length kvs"
      using distinct_card[of "map fst kvs"] by simp
    then show ?thesis
      using inj_on_iff_eq_card[of "set (map fst kvs)" new_key]
      by (simp only: sanitize_dict_length) auto
  qed
  have f: "\<exists>ys. sanitize_for_mongo (JList xs) = JList ys \<and> length ys = length xs" by simp
  from a b c d e f sanitize_shape[of x] show ?thesis by blast
qed

text \<open>Two colliding keys out of three leave two items; a nested value without collisions.\<close>

theorem sanitize_for_mongo_preserves_shape_witness:
  "distinct (map fst [(''a.b'', JInt 1), (''a$b'', JInt 2), (''c'', JNull)])
   \<and> \<not> inj_on new_key (set (map fst [(''a.b'', JInt 1), (''a$b'', JInt 2), (''c'', JNull)]))
   \<and> length (dict_items (sanitize_for_mongo
        (JDict [(''a.b'', JInt 1), (''a$b'', JInt 2), (''c'', JNull)]))) = 2
   \<and> collision_free (JList [JDict [(''a.b'', JInt 1), (''c'', JList [JBool True])], JStr ''x.y''])
   \<and> shape_of (sanitize_for_mongo
        (JList [JDict [(''a.b'', JInt 1), (''c'', JList [JBool True])], JStr ''x.y'']))
      = Seq [Mapping [Leaf (JInt 1), Seq [Leaf (JBool True)]], Leaf (JStr ''x.y'')]"
  using sanitize_for_mongo_preserves_shape
    [where x = "JList [JDict [(''a.b'', JInt 1), (''c'', JList [JBool True])], JStr ''x.y'']"
       and kvs = "[(''a.b'', JInt 1), (''a$b'', JInt 2), (''c'', JNull)]" and xs = "[]"]
  by (simp add: new_key_def)

section \<open>Properties of the transformer\<close>

text \<open>
  C2, as stated, speaks of every input mapping. On the mapping
  \<^verbatim>\<open>{"vulnerabilities": ["CVE-1"]}\<close> the element is a string, the assignment of
  \<^verbatim>\<open>ingested_at\<close> fails and \<^verbatim>\<open>transform\<close> raises \<^verbatim>\<open>TypeError\<close>: it returns no
  document for the element.
\<close>

theorem transform_string_element_raises:
  "fst (transform
          \<lparr>requests_get = (\<lambda>url t. Inl RequestException),
           utcnow_isoformat = (\<lambda>i. ''2024-01-01T00:00:00+00:00''),
           get_collection = (\<lambda>uri db coll. Inr ()),
           insert_many = (\<lambda>ds. Inr (length ds))\<rparr>
          (JDict [(''vulnerabilities'', JList [JStr ''CVE-1''])]) [])
     = Inl TypeError"
  by (simp add: transform_def)

text \<open>
  C2, amended. For an input dict whose \<^verbatim>\<open>vulnerabilities\<close> field is a list of dicts,
  \<^verbatim>\<open>transform\<close> returns one document per element, in the order of the input. The
  \<open>i\<close>-th document is the sanitized \<open>i\<close>-th element with \<^verbatim>\<open>ingested_at\<close> assigned the
  \<open>i\<close>-th reading of the clock: looking up \<^verbatim>\<open>ingested_at\<close> gives that reading, whether
  or not the sanitized element had the field, and every other key has the value it has
  in the sanitized element.
\<close>

theorem transform_one_document_per_record:
  assumes "map_of kvs ''vulnerabilities'' = Some (JList items)"
    and "list_all is_dict items"
  shows "\<exists>docs. transform w (JDict kvs) tr = (Inr docs, tr @ [Log INFO Transforming])
     \<and> length docs = length items
     \<and> (\<forall>i<length items. \<exists>d. sanitize_for_mongo (items ! i) = JDict d
          \<and> docs ! i = JDict (AList.update ''ingested_at'' (JStr (utcnow_isoformat w i)) d)
          \<and> map_of (dict_items (docs ! i)) ''ingested_at'' = Some (JStr (utcnow_isoformat w i))
          \<and> (\<forall>k. k \<noteq> ''ingested_at'' \<longrightarrow> map_of (dict_items (docs ! i)) k = map_of d k))"
proof -
  let ?stamp = "\<lambda>p. JDict (AList.update ''ingested_at'' (JStr (utcnow_isoformat w (fst p)))
                              (dict_items (sanitize_for_mongo (snd p))))"
  let ?docs = "map ?stamp (enumerate 0 items)"
  have t: "transform w (JDict kvs) tr = (Inr ?docs, tr @ [Log INFO Transforming])"
    using assms by (simp add: transform_dict transform_loop_dicts)
  have "\<exists>d. sanitize_for_mongo (items ! i) = JDict d
          \<and> ?docs ! i = JDict (AList.update ''ingested_at'' (JStr (utcnow_isoformat w i)) d)
          \<and> map_of (dict_items (?docs ! i)) ''ingested_at'' = Some (JStr (utcnow_isoformat w i))
          \<and> (\<forall>k. k \<noteq> ''ingested_at'' \<longrightarrow> map_of (dict_items (?docs ! i)) k = map_of d k)"
    if i: "i < length items" for i
  proof -
    from i assms(2) have "is_dict (sanitize_for_mongo (items ! i))"
      by (simp add: is_dict_sanitize list_all_length)
    then have "sanitize_for_mongo (items ! i) = JDict (dict_items (sanitize_for_mongo (items ! i)))"
      by (rule is_dict_items)
    moreover have "?docs ! i = ?stamp (i, items ! i)"
      using i by (simp add: nth_enumerate_eq)
    ultimately show ?thesis
      by (intro exI[of _ "dict_items (sanitize_for_mongo (items ! i))"]) (simp add: update_conv')
  qed
  with t show ?thesis by (intro exI[of _ ?docs]) simp
qed

text \<open>A feed of two records, the first with an \<^verbatim>\<open>ingested_at\<close> of its own.\<close>

theorem transform_one_document_per_record_witness:
  "map_of [(''title'', JStr ''KEV''),
           (''vulnerabilities'',
            JList [JDict [(''cve.id'', JStr ''CVE-1''), (''ingested_at'', JStr ''old'')], JDict []])]
     ''vulnerabilities''
     = Some (JList [JDict [(''cve.id'', JStr ''CVE-1''), (''ingested_at'', JStr ''old'')], JDict []])
   \<and> list_all is_dict [JDict [(''cve.id'', JStr ''CVE-1''), (''ingested_at'', JStr ''old'')], JDict []]
   \<and> transform
        \<lparr>requests_get = (\<lambda>url t. Inl RequestException),
         utcnow_isoformat = (\<lambda>i. if i = 0 then ''t0'' else ''t1''),
         get_collection = (\<lambda>uri db coll. Inr ()),
         insert_many = (\<lambda>ds. Inr (length ds))\<rparr>
        (JDict [(''title'', JStr ''KEV''),
                (''vulnerabilities'',
                 JList [JDict [(''cve.id'', JStr ''CVE-1''), (''ingested_at'', JStr ''old'')], JDict []])])
        []
      = (Inr [JDict [(''cve_id'', JStr ''CVE-1''), (''ingested_at'', JStr ''t0'')],
              JDict [(''ingested_at'', JStr ''t1'')]],
         [Log INFO Transforming])"
  using transform_one_document_per_record
    [of "[(''title'', JStr ''KEV''),
           (''vulnerabilities'',
            JList [JDict [(''cve.id'', JStr ''CVE-1''), (''ingested_at'', JStr ''old'')], JDict []])]"
        "[JDict [(''cve.id'', JStr ''CVE-1''), (''ingested_at'', JStr ''old'')], JDict []]"
        "\<lparr>requests_get = (\<lambda>url t. Inl RequestException),
         utcnow_isoformat = (\<lambda>i. if i = 0 then ''t0'' else ''t1''),
         get_collection = (\<lambda>uri db coll. Inr ()),
         insert_many = (\<lambda>ds. Inr (length ds))\<rparr>" "[]"]
  by (simp add: transform_def new_key_def)

text \<open>
  C3. For an input dict without a \<^verbatim>\<open>vulnerabilities\<close> field, \<^verbatim>\<open>transform\<close> returns
  the empty list and raises nothing.
\<close>

theorem transform_without_vulnerabilities:
  assumes "map_of kvs ''vulnerabilities'' = None"
  shows "transform w (JDict kvs) tr = (Inr [], tr @ [Log INFO Transforming])"
  using assms by (simp add: transform_dict)

text \<open>A payload with two other fields.\<close>

theorem transform_without_vulnerabilities_witness:
  "map_of [(''title'', JStr ''KEV''), (''count'', JInt 0)] ''vulnerabilities'' = None
   \<and> transform
        \<lparr>requests_get = (\<lambda>url t. Inl RequestException),
          utcnow_isoformat = (\<lambda>i. ''2024-01-01T00:00:00+00:00''),
          get_collection = (\<lambda>uri db coll. Inr ()),
          insert_many = (\<lambda>ds. Inr (length ds))\<rparr>
        (JDict [(''title'', JStr ''KEV''), (''count'', JInt 0)]) []
       = (Inr [], [Log INFO Transforming])"
  using transform_without_vulnerabilities
    [of "[(''title'', JStr ''KEV''), (''count'', JInt 0)]"
        "\<lparr>requests_get = (\<lambda>url t. Inl RequestException),
          utcnow_isoformat = (\<lambda>i. ''2024-01-01T00:00:00+00:00''),
          get_collection = (\<lambda>uri db coll. Inr ()),
          insert_many = (\<lambda>ds. Inr (length ds))\<rparr>" "[]"]
  by simp

text \<open>
  C10. Where the \<^verbatim>\<open>vulnerabilities\<close> field is a list, \<^verbatim>\<open>transform\<close> returns
  documents exactly when every element is a dict; with an element that is not a dict the
  assignment of \<^verbatim>\<open>ingested_at\<close> fails and \<^verbatim>\<open>transform\<close> raises \<^verbatim>\<open>TypeError\<close>.
\<close>

theorem transform_raises_on_non_mapping:
  assumes "map_of kvs ''vulnerabilities'' = Some (JList items)"
  shows "(\<exists>docs. fst (transform w (JDict kvs) tr) = Inr docs) = list_all is_dict items
     \<and> (\<not> list_all is_dict items \<longrightarrow> fst (transform w (JDict kvs) tr) = Inl TypeError)"
  using assms transform_loop_dicts[of items w 0 "[]"] transform_loop_non_dict[of items w 0 "[]"]
  by (cases "list_all is_dict items") (simp_all add: transform_dict)

text \<open>A feed whose second element is a string.\<close>

theorem transform_raises_on_non_mapping_witness:
  "map_of [(''vulnerabilities'', JList [JDict [(''cveID'', JStr ''CVE-1'')], JStr ''CVE-2''])]
     ''vulnerabilities''
     = Some (JList [JDict [(''cveID'', JStr ''CVE-1'')], JStr ''CVE-2''])
   \<and> \<not> list_all is_dict [JDict [(''cveID'', JStr ''CVE-1'')], JStr ''CVE-2'']
   \<and> fst (transform
        \<lparr>requests_get = (\<lambda>url t. Inl RequestException),
          utcnow_isoformat = (\<lambda>i. ''2024-01-01T00:00:00+00:00''),
          get_collection = (\<lambda>uri db coll. Inr ()),
          insert_many = (\<lambda>ds. Inr (length ds))\<rparr>
        (JDict [(''vulnerabilities'', JList [JDict [(''cveID'', JStr ''CVE-1'')], JStr ''CVE-2''])]) [])
      = Inl TypeError"
  using transform_raises_on_non_mapping
    [of "[(''vulnerabilities'', JList [JDict [(''cveID'', JStr ''CVE-1'')], JStr ''CVE-2''])]"
        "[JDict [(''cveID'', JStr ''CVE-1'')], JStr ''CVE-2'']"
        "\<lparr>requests_get = (\<lambda>url t. Inl RequestException),
          utcnow_isoformat = (\<lambda>i. ''2024-01-01T00:00:00+00:00''),
          get_collection = (\<lambda>uri db coll. Inr ()),
          insert_many = (\<lambda>ds. Inr (length ds))\<rparr>" "[]"]
  by simp

section \<open>Properties of the loader and of the run\<close>

lemma snd_extract_data:
  "snd (extract_data w url tr) = tr @ [Log INFO (Extracting url), HttpGet url 30]"
  by (simp add: extract_data_def Let_def split: sum.splits)

lemma snd_transform: "snd (transform w raw tr) = tr @ [Log INFO Transforming]"
  by (simp add: transform_def Let_def split: sum.splits)

lemma load_to_mongo_unset:
  "MONGO_URI cfg = None \<or> MONGO_URI cfg = Some [] \<Longrightarrow>
   load_to_mongo cfg w docs tr
     = (Inl (RuntimeError ''MONGO_URI not set in environment variables.''), tr)"
  by (auto simp: load_to_mongo_def)

lemma run_extract_fails:
  "extract_data w (CISA_KEV_URL cfg) tr = (Inl e, tr1) \<Longrightarrow>
   run cfg w tr = (Inr FAILED, tr1 @ [Log ERROR (Failed e)])"
  by (cases e) (simp_all add: run_def run_try_def)

lemma run_transform_fails:
  "extract_data w (CISA_KEV_URL cfg) tr = (Inr raw, tr1) \<Longrightarrow>
   transform w raw tr1 = (Inl e, tr2) \<Longrightarrow>
   run cfg w tr = (Inr FAILED, tr2 @ [Log ERROR (Failed e)])"
  by (cases e) (simp_all add: run_def run_try_def)

lemma run_load_fails:
  "extract_data w (CISA_KEV_URL cfg) tr = (Inr raw, tr1) \<Longrightarrow>
   transform w raw tr1 = (Inr docs, tr2) \<Longrightarrow>
   load_to_mongo cfg w docs tr2 = (Inl e, tr3) \<Longrightarrow>
   run cfg w tr = (Inr FAILED, tr3 @ [Log ERROR (Failed e)])"
  by (cases e) (simp_all add: run_def run_try_def)

lemma run_load_succeeds:
  "extract_data w (CISA_KEV_URL cfg) tr = (Inr raw, tr1) \<Longrightarrow>
   transform w raw tr1 = (Inr docs, tr2) \<Longrightarrow>
   load_to_mongo cfg w docs tr2 = (Inr r, tr3) \<Longrightarrow>
   run cfg w tr = (Inr DONE, tr3 @ [Log INFO Completed])"
  by (simp add: run_def run_try_def)

lemma run_returns: "\<exists>st tr'. run cfg w tr = (Inr st, tr')"
proof (cases "extract_data w (CISA_KEV_URL cfg) tr")
  case ex: (Pair r1 tr1)
  show ?thesis
  proof (cases r1)
    case (Inl e)
    with ex run_extract_fails show ?thesis by blast
  next
    case raw: (Inr raw)
    show ?thesis
    proof (cases "transform w raw tr1")
      case tf: (Pair r2 tr2)
      show ?thesis
      proof (cases r2)
        case (Inl e)
        with ex raw tf run_transform_fails show ?thesis by blast
      next
        case docs: (Inr docs)
        show ?thesis
        proof (cases "load_to_mongo cfg w docs tr2")
          case ld: (Pair r3 tr3)
          show ?thesis
          proof (cases r3)
            case (Inl e)
            with ex raw tf docs ld run_load_fails show ?thesis by blast
          next
            case (Inr r)
            with ex raw tf docs ld run_load_succeeds show ?thesis by blast
          qed
        qed
      qed
    qed
  qed
qed

text \<open>
  C6. \<^verbatim>\<open>run\<close> always returns: no exception leaves it. When the fetch, the transform or
  the load raises, the run ends in the failed state, and the last event is the error-level
  log entry of that exception, after the events of the step that raised.
\<close>

theorem run_swallows_errors:
  "(\<exists>st tr'. run cfg w tr = (Inr st, tr'))
   \<and> (extract_data w (CISA_KEV_URL cfg) tr = (Inl e, tr_fetched) \<longrightarrow>
        run cfg w tr = (Inr FAILED, tr_fetched @ [Log ERROR (Failed e)]))
   \<and> (extract_data w (CISA_KEV_URL cfg) tr = (Inr raw, tr_fetched)
        \<and> transform w raw tr_fetched = (Inl e, tr_transformed) \<longrightarrow>
        run cfg w tr = (Inr FAILED, tr_transformed @ [Log ERROR (Failed e)]))
   \<and> (extract_data w (CISA_KEV_URL cfg) tr = (Inr raw, tr_fetched)
        \<and> transform w raw tr_fetched = (Inr docs, tr_transformed)
        \<and> load_to_mongo cfg w docs tr_transformed = (Inl e, tr_loaded) \<longrightarrow>
        run cfg w tr = (Inr FAILED, tr_loaded @ [Log ERROR (Failed e)]))"
  using run_returns[of cfg w tr] run_extract_fails[of w cfg tr e tr_fetched]
    run_transform_fails[of w cfg tr raw tr_fetched e tr_transformed] run_load_fails[of w cfg tr raw tr_fetched docs tr_transformed e tr_loaded]
  by blast

text \<open>
  Three runs: a body that is not JSON, a feed whose element is a string, and a store that
  rejects the insert.
\<close>

theorem run_swallows_errors_witness:
  "run \<lparr>CISA_KEV_URL = Some ''https://feed.example/kev.json'',
        MONGO_URI = Some ''mongodb://localhost:27017'',
        MONGO_DB = ''etl_db'', MONGO_COLLECTION = ''cisa_kev''\<rparr>
       \<lparr>requests_get = (\<lambda>url t. Inr \<lparr>status_code = 200, body = None\<rparr>),
        utcnow_isoformat = (\<lambda>i. ''2024-01-01T00:00:00+00:00''),
        get_collection = (\<lambda>uri db coll. Inr ()),
        insert_many = (\<lambda>ds. Inr (length ds))\<rparr>
       []
     = (Inr FAILED,
        [Log INFO (Extracting (Some ''https://feed.example/kev.json'')),
         HttpGet (Some ''https://feed.example/kev.json'') 30,
         Log ERROR (Failed JSONDecodeError)])
   \<and> run \<lparr>CISA_KEV_URL = Some ''https://feed.example/kev.json'',
        MONGO_URI = Some ''mongodb://localhost:27017'',
        MONGO_DB = ''etl_db'', MONGO_COLLECTION = ''cisa_kev''\<rparr>
       \<lparr>requests_get = (\<lambda>url t. Inr \<lparr>status_code = 200,
           body = Some (JDict [(''vulnerabilities'', JList [JStr ''CVE-1''])])\<rparr>),
        utcnow_isoformat = (\<lambda>i. ''2024-01-01T00:00:00+00:00''),
        get_collection = (\<lambda>uri db coll. Inr ()),
        insert_many = (\<lambda>ds. Inr (length ds))\<rparr>
       []
     = (Inr FAILED,
        [Log INFO (Extracting (Some ''https://feed.example/kev.json'')),
         HttpGet (Some ''https://feed.example/kev.json'') 30,
         Log INFO Transforming,
         Log ERROR (Failed TypeError)])
   \<and> run \<lparr>CISA_KEV_URL = Some ''https://feed.example/kev.json'',
        MONGO_URI = Some ''mongodb://localhost:27017'',
        MONGO_DB = ''etl_db'', MONGO_COLLECTION = ''cisa_kev''\<rparr>
       \<lparr>requests_get = (\<lambda>url t. Inr \<lparr>status_code = 200,
           body = Some (JDict [(''vulnerabilities'', JList [JDict [(''cveID'', JStr ''CVE-1'')]])])\<rparr>),
        utcnow_isoformat = (\<lambda>i. ''2024-01-01T00:00:00+00:00''),
        get_collection = (\<lambda>uri db coll. Inr ()),
        insert_many = (\<lambda>ds. Inl PyMongoError)\<rparr>
       []
     = (Inr FAILED,
        [Log INFO (Extracting (Some ''https://feed.example/kev.json'')),
         HttpGet (Some ''https://feed.example/kev.json'') 30,
         Log INFO Transforming,
         Connect ''mongodb://localhost:27017'' ''etl_db'' ''cisa_kev'',
         InsertMany [JDict [(''cveID'', JStr ''CVE-1''),
                            (''ingested_at'', JStr ''2024-01-01T00:00:00+00:00'')]],
         Log ERROR (Failed PyMongoError)])"
  using run_swallows_errors
    [where cfg = "\<lparr>CISA_KEV_URL = Some ''https://feed.example/kev.json'',
        MONGO_URI = Some ''mongodb://localhost:27017'',
        MONGO_DB = ''etl_db'', MONGO_COLLECTION = ''cisa_kev''\<rparr>"
       and w = "\<lparr>requests_get = (\<lambda>url t. Inr \<lparr>status_code = 200, body = None\<rparr>),
        utcnow_isoformat = (\<lambda>i. ''2024-01-01T00:00:00+00:00''),
        get_collection = (\<lambda>uri db coll. Inr ()),
        insert_many = (\<lambda>ds. Inr (length ds))\<rparr>"
       and tr = "[]" and e = JSONDecodeError
       and tr_fetched = "[Log INFO (Extracting (Some ''https://feed.example/kev.json'')),
         HttpGet (Some ''https://feed.example/kev.json'') 30]"]
    run_swallows_errors
    [where cfg = "\<lparr>CISA_KEV_URL = Some ''https://feed.example/kev.json'',
        MONGO_URI = Some ''mongodb://localhost:27017'',
        MONGO_DB = ''etl_db'', MONGO_COLLECTION = ''cisa_kev''\<rparr>"
       and w = "\<lparr>requests_get = (\<lambda>url t. Inr \<lparr>status_code = 200,
           body = Some (JDict [(''vulnerabilities'', JList [JStr ''CVE-1''])])\<rparr>),
        utcnow_isoformat = (\<lambda>i. ''2024-01-01T00:00:00+00:00''),
        get_collection = (\<lambda>uri db coll. Inr ()),
        insert_many = (\<lambda>ds. Inr (length ds))\<rparr>"
       and tr = "[]" and e = TypeError
       and raw = "JDict [(''vulnerabilities'', JList [JStr ''CVE-1''])]"
       and tr_fetched = "[Log INFO (Extracting (Some ''https://feed.example/kev.json'')),
         HttpGet (Some ''https://feed.example/kev.json'') 30]"
       and tr_transformed = "[Log INFO (Extracting (Some ''https://feed.example/kev.json'')),
         HttpGet (Some ''https://feed.example/kev.json'') 30, Log INFO Transforming]"]
    run_swallows_errors
    [where cfg = "\<lparr>CISA_KEV_URL = Some ''https://feed.example/kev.json'',
        MONGO_URI = Some ''mongodb://localhost:27017'',
        MONGO_DB = ''etl_db'', MONGO_COLLECTION = ''cisa_kev''\<rparr>"
       and w = "\<lparr>requests_get = (\<lambda>url t. Inr \<lparr>status_code = 200,
           body = Some (JDict [(''vulnerabilities'', JList [JDict [(''cveID'', JStr ''CVE-1'')]])])\<rparr>),
        utcnow_isoformat = (\<lambda>i. ''2024-01-01T00:00:00+00:00''),
        get_collection = (\<lambda>uri db coll. Inr ()),
        insert_many = (\<lambda>ds. Inl PyMongoError)\<rparr>"
       and tr = "[]" and e = PyMongoError
       and raw = "JDict [(''vulnerabilities'', JList [JDict [(''cveID'', JStr ''CVE-1'')]])]"
       and tr_fetched = "[Log INFO (Extracting (Some ''https://feed.example/kev.json'')),
         HttpGet (Some ''https://feed.example/kev.json'') 30]"
       and docs = "[JDict [(''cveID'', JStr ''CVE-1''),
                            (''ingested_at'', JStr ''2024-01-01T00:00:00+00:00'')]]"
       and tr_transformed = "[Log INFO (Extracting (Some ''https://feed.example/kev.json'')),
         HttpGet (Some ''https://feed.example/kev.json'') 30, Log INFO Transforming]"
       and tr_loaded = "[Log INFO (Extracting (Some ''https://feed.example/kev.json'')),
         HttpGet (Some ''https://feed.example/kev.json'') 30, Log INFO Transforming,
         Connect ''mongodb://localhost:27017'' ''etl_db'' ''cisa_kev'',
         InsertMany [JDict [(''cveID'', JStr ''CVE-1''),
                            (''ingested_at'', JStr ''2024-01-01T00:00:00+00:00'')]]]"]
  by (simp add: extract_data_def raise_for_status_def resp_json_def transform_def
        load_to_mongo_def new_key_def)

text \<open>
  C7. When the fetch raises, the run ends in the failed state and its events are the
  log entry of the fetch, the GET and the log entry of the failure: nothing of the
  transform and no call of the store. The fetch raises when \<^verbatim>\<open>requests.get\<close> raises and
  when the status is from 400 to 599, for instance 500.
\<close>

theorem run_fetch_failure_stops:
  "(fst (extract_data w (CISA_KEV_URL cfg) tr) = Inl e \<longrightarrow>
      run cfg w tr
        = (Inr FAILED,
           tr @ [Log INFO (Extracting (CISA_KEV_URL cfg)), HttpGet (CISA_KEV_URL cfg) 30,
                 Log ERROR (Failed e)]))
   \<and> (requests_get w url 30 = Inl e \<longrightarrow> fst (extract_data w url tr) = Inl e)
   \<and> (requests_get w url 30 = Inr resp \<and> 400 \<le> status_code resp \<and> status_code resp < 600 \<longrightarrow>
        fst (extract_data w url tr) = Inl (HTTPError (status_code resp)))
   \<and> (requests_get w url 30 = Inr resp \<and> status_code resp = 500 \<longrightarrow>
        fst (extract_data w url tr) = Inl (HTTPError 500))"
proof -
  have "run cfg w tr
        = (Inr FAILED,
           tr @ [Log INFO (Extracting (CISA_KEV_URL cfg)), HttpGet (CISA_KEV_URL cfg) 30,
                 Log ERROR (Failed e)])"
    if f: "fst (extract_data w (CISA_KEV_URL cfg) tr) = Inl e"
  proof -
    from f have "extract_data w (CISA_KEV_URL cfg) tr
        = (Inl e, tr @ [Log INFO (Extracting (CISA_KEV_URL cfg)), HttpGet (CISA_KEV_URL cfg) 30])"
      using snd_extract_data[of w "CISA_KEV_URL cfg" tr] by (simp add: prod_eq_iff)
    from run_extract_fails[OF this] show ?thesis by simp
  qed
  then show ?thesis
    by (simp add: extract_data_def raise_for_status_def Let_def)
qed

text \<open>A feed that answers 500.\<close>

theorem run_fetch_failure_stops_witness:
  "requests_get
      \<lparr>requests_get = (\<lambda>url t. Inr \<lparr>status_code = 500, body = None\<rparr>),
       utcnow_isoformat = (\<lambda>i. ''2024-01-01T00:00:00+00:00''),
       get_collection = (\<lambda>uri db coll. Inr ()),
       insert_many = (\<lambda>ds. Inr (length ds))\<rparr>
      (Some ''https://feed.example/kev.json'') 30
     = Inr \<lparr>status_code = 500, body = None\<rparr>
   \<and> run \<lparr>CISA_KEV_URL = Some ''https://feed.example/kev.json'',
          MONGO_URI = Some ''mongodb://localhost:27017'',
          MONGO_DB = ''etl_db'', MONGO_COLLECTION = ''cisa_kev''\<rparr>
        \<lparr>requests_get = (\<lambda>url t. Inr \<lparr>status_code = 500, body = None\<rparr>),
         utcnow_isoformat = (\<lambda>i. ''2024-01-01T00:00:00+00:00''),
         get_collection = (\<lambda>uri db coll. Inr ()),
         insert_many = (\<lambda>ds. Inr (length ds))\<rparr>
        []
     = (Inr FAILED,
        [Log INFO (Extracting (Some ''https://feed.example/kev.json'')),
         HttpGet (Some ''https://feed.example/kev.json'') 30,
         Log ERROR (Failed (HTTPError 500))])"
  using run_fetch_failure_stops
    [where cfg = "\<lparr>CISA_KEV_URL = Some ''https://feed.example/kev.json'',
          MONGO_URI = Some ''mongodb://localhost:27017'',
          MONGO_DB = ''etl_db'', MONGO_COLLECTION = ''cisa_kev''\<rparr>"
       and w = "\<lparr>requests_get = (\<lambda>url t. Inr \<lparr>status_code = 500, body = None\<rparr>),
         utcnow_isoformat = (\<lambda>i. ''2024-01-01T00:00:00+00:00''),
         get_collection = (\<lambda>uri db coll. Inr ()),
         insert_many = (\<lambda>ds. Inr (length ds))\<rparr>"
       and tr = "[]" and e = "HTTPError 500"
       and url = "Some ''https://feed.example/kev.json''"
       and resp = "\<lparr>status_code = 500, body = None\<rparr>"]
  by (simp add: extract_data_def raise_for_status_def)

text \<open>
  C5. With \<^verbatim>\<open>MONGO_URI\<close> unset or empty the loader raises \<^verbatim>\<open>RuntimeError\<close> for every
  list of documents, before any call of the store: the events are unchanged. The check is
  made by the loader only. A run with that configuration always starts with the fetch, ends
  in the failed state and never calls the store; where the fetch and the transform return,
  both are done and the run then fails with the loader's \<^verbatim>\<open>RuntimeError\<close>, their
  documents inserted nowhere.
\<close>

theorem load_to_mongo_requires_uri:
  assumes "MONGO_URI cfg = None \<or> MONGO_URI cfg = Some []"
  shows "load_to_mongo cfg w docs tr
           = (Inl (RuntimeError ''MONGO_URI not set in environment variables.''), tr)
     \<and> (\<exists>evs. run cfg w tr
           = (Inr FAILED,
              tr @ Log INFO (Extracting (CISA_KEV_URL cfg)) # HttpGet (CISA_KEV_URL cfg) 30 # evs)
          \<and> list_all (\<lambda>ev. \<not> is_store_call ev) evs)
     \<and> (extract_data w (CISA_KEV_URL cfg) tr = (Inr raw, tr_fetched)
          \<and> transform w raw tr_fetched = (Inr docs_made, tr_transformed) \<longrightarrow>
        run cfg w tr
          = (Inr FAILED,
             tr @ [Log INFO (Extracting (CISA_KEV_URL cfg)), HttpGet (CISA_KEV_URL cfg) 30,
                   Log INFO Transforming,
                   Log ERROR (Failed (RuntimeError ''MONGO_URI not set in environment variables.''))]))"
proof -
  let ?url = "CISA_KEV_URL cfg"
  let ?tr1 = "tr @ [Log INFO (Extracting ?url), HttpGet ?url 30]"
  let ?err = "RuntimeError ''MONGO_URI not set in environment variables.''"
  note ld = load_to_mongo_unset[OF assms]
  have ex: "extract_data w ?url tr = (fst (extract_data w ?url tr), ?tr1)"
    using snd_extract_data[of w ?url tr] by (simp add: prod_eq_iff)
  have tf: "transform w r ?tr1 = (fst (transform w r ?tr1), ?tr1 @ [Log INFO Transforming])" for r
    using snd_transform[of w r ?tr1] by (simp add: prod_eq_iff)
  have full: "run cfg w tr = (Inr FAILED, ?tr1 @ [Log INFO Transforming, Log ERROR (Failed ?err)])"
    if 1: "extract_data w ?url tr = (Inr r, t1)" and 2: "transform w r t1 = (Inr ds, t2)"
    for r ds t1 t2
  proof -
    from 1 ex have t1: "t1 = ?tr1" by simp
    with 2 tf[of r] have t2: "t2 = ?tr1 @ [Log INFO Transforming]" by simp
    from run_load_fails[OF 1 2 ld] t2 show ?thesis by simp
  qed
  have part: "\<exists>evs. run cfg w tr = (Inr FAILED, ?tr1 @ evs) \<and> list_all (\<lambda>ev. \<not> is_store_call ev) evs"
  proof (cases "fst (extract_data w ?url tr)")
    case (Inl e)
    with ex have "extract_data w ?url tr = (Inl e, ?tr1)" by simp
    from run_extract_fails[OF this] show ?thesis by simp
  next
    case (Inr r)
    with ex have 1: "extract_data w ?url tr = (Inr r, ?tr1)" by simp
    show ?thesis
    proof (cases "fst (transform w r ?tr1)")
      case (Inl e)
      with tf[of r] have "transform w r ?tr1 = (Inl e, ?tr1 @ [Log INFO Transforming])" by simp
      from run_transform_fails[OF 1 this] show ?thesis by simp
    next
      case (Inr ds)
      with tf[of r] have "transform w r ?tr1 = (Inr ds, ?tr1 @ [Log INFO Transforming])" by simp
      from full[OF 1 this] show ?thesis by simp
    qed
  qed
  have third: "run cfg w tr = (Inr FAILED, ?tr1 @ [Log INFO Transforming, Log ERROR (Failed ?err)])"
    if "extract_data w ?url tr = (Inr raw, tr_fetched)
        \<and> transform w raw tr_fetched = (Inr docs_made, tr_transformed)"
    using that full by blast
  from ld part third show ?thesis by simp
qed

text \<open>A run without \<^verbatim>\<open>MONGO_URI\<close> over a feed of one record.\<close>

theorem load_to_mongo_requires_uri_witness:
  "MONGO_URI \<lparr>CISA_KEV_URL = Some ''https://feed.example/kev.json'', MONGO_URI = None,
              MONGO_DB = ''etl_db'', MONGO_COLLECTION = ''cisa_kev''\<rparr> = None
   \<and> run \<lparr>CISA_KEV_URL = Some ''https://feed.example/kev.json'', MONGO_URI = None,
          MONGO_DB = ''etl_db'', MONGO_COLLECTION = ''cisa_kev''\<rparr>
        \<lparr>requests_get = (\<lambda>url t. Inr \<lparr>status_code = 200,
             body = Some (JDict [(''vulnerabilities'', JList [JDict [(''cveID'', JStr ''CVE-1'')]])])\<rparr>),
         utcnow_isoformat = (\<lambda>i. ''2024-01-01T00:00:00+00:00''),
         get_collection = (\<lambda>uri db coll. Inr ()),
         insert_many = (\<lambda>ds. Inr (length ds))\<rparr>
        []
     = (Inr FAILED,
        [Log INFO (Extracting (Some ''https://feed.example/kev.json'')),
         HttpGet (Some ''https://feed.example/kev.json'') 30,
         Log INFO Transforming,
         Log ERROR (Failed (RuntimeError ''MONGO_URI not set in environment variables.''))])"
  using load_to_mongo_requires_uri
    [where cfg = "\<lparr>CISA_KEV_URL = Some ''https://feed.example/kev.json'', MONGO_URI = None,
          MONGO_DB = ''etl_db'', MONGO_COLLECTION = ''cisa_kev''\<rparr>"
       and w = "\<lparr>requests_get = (\<lambda>url t. Inr \<lparr>status_code = 200,
             body = Some (JDict [(''vulnerabilities'', JList [JDict [(''cveID'', JStr ''CVE-1'')]])])\<rparr>),
         utcnow_isoformat = (\<lambda>i. ''2024-01-01T00:00:00+00:00''),
         get_collection = (\<lambda>uri db coll. Inr ()),
         insert_many = (\<lambda>ds. Inr (length ds))\<rparr>"
       and tr = "[]"
       and raw = "JDict [(''vulnerabilities'', JList [JDict [(''cveID'', JStr ''CVE-1'')]])]"
       and tr_fetched = "[Log INFO (Extracting (Some ''https://feed.example/kev.json'')),
                   HttpGet (Some ''https://feed.example/kev.json'') 30]"
       and docs_made = "[JDict [(''cveID'', JStr ''CVE-1''),
                            (''ingested_at'', JStr ''2024-01-01T00:00:00+00:00'')]]"
       and tr_transformed = "[Log INFO (Extracting (Some ''https://feed.example/kev.json'')),
                   HttpGet (Some ''https://feed.example/kev.json'') 30, Log INFO Transforming]"]
  by (simp add: extract_data_def raise_for_status_def resp_json_def transform_def new_key_def)

text \<open>
  C4, as stated, asks for a zero count. With a connection string and an empty list the
  loader returns \<^verbatim>\<open>None\<close>, which is not the count 0.
\<close>

theorem load_to_mongo_empty_returns_no_count:
  "fst (load_to_mongo
          \<lparr>CISA_KEV_URL = Some ''https://feed.example/kev.json'',
           MONGO_URI = Some ''mongodb://localhost:27017'',
           MONGO_DB = ''etl_db'', MONGO_COLLECTION = ''cisa_kev''\<rparr>
          \<lparr>requests_get = (\<lambda>url t. Inl RequestException),
           utcnow_isoformat = (\<lambda>i. ''2024-01-01T00:00:00+00:00''),
           get_collection = (\<lambda>uri db coll. Inr ()),
           insert_many = (\<lambda>ds. Inr (length ds))\<rparr>
          [] [])
     = Inr JNull
   \<and> fst (load_to_mongo
          \<lparr>CISA_KEV_URL = Some ''https://feed.example/kev.json'',
           MONGO_URI = Some ''mongodb://localhost:27017'',
           MONGO_DB = ''etl_db'', MONGO_COLLECTION = ''cisa_kev''\<rparr>
          \<lparr>requests_get = (\<lambda>url t. Inl RequestException),
           utcnow_isoformat = (\<lambda>i. ''2024-01-01T00:00:00+00:00''),
           get_collection = (\<lambda>uri db coll. Inr ()),
           insert_many = (\<lambda>ds. Inr (length ds))\<rparr>
          [] [])
     \<noteq> Inr (JInt 0)"
  by (simp add: load_to_mongo_def)

text \<open>
  C4, amended. With a connection string that is present and not empty, and a store client
  that gives the collection, the loader called with the empty list calls no insert, logs
  the warning and returns \<^verbatim>\<open>None\<close>; it raises nothing.
\<close>

theorem load_to_mongo_empty:
  assumes "MONGO_URI cfg = Some uri" and "uri \<noteq> []"
    and "get_collection w uri (MONGO_DB cfg) (MONGO_COLLECTION cfg) = Inr ()"
  shows "load_to_mongo cfg w [] tr
           = (Inr JNull,
              tr @ [Connect uri (MONGO_DB cfg) (MONGO_COLLECTION cfg), Log WARNING NoDocuments])"
  using assms by (simp add: load_to_mongo_def Let_def)

text \<open>The loader called with no documents.\<close>

theorem load_to_mongo_empty_witness:
  "MONGO_URI \<lparr>CISA_KEV_URL = Some ''https://feed.example/kev.json'',
           MONGO_URI = Some ''mongodb://localhost:27017'',
           MONGO_DB = ''etl_db'', MONGO_COLLECTION = ''cisa_kev''\<rparr>
     = Some ''mongodb://localhost:27017''
   \<and> ''mongodb://localhost:27017'' \<noteq> []
   \<and> load_to_mongo
          \<lparr>CISA_KEV_URL = Some ''https://feed.example/kev.json'',
           MONGO_URI = Some ''mongodb://localhost:27017'',
           MONGO_DB = ''etl_db'', MONGO_COLLECTION = ''cisa_kev''\<rparr>
          \<lparr>requests_get = (\<lambda>url t. Inl RequestException),
           utcnow_isoformat = (\<lambda>i. ''2024-01-01T00:00:00+00:00''),
           get_collection = (\<lambda>uri db coll. Inr ()),
           insert_many = (\<lambda>ds. Inr (length ds))\<rparr>
          [] []
     = (Inr JNull,
        [Connect ''mongodb://localhost:27017'' ''etl_db'' ''cisa_kev'', Log WARNING NoDocuments])"
  using load_to_mongo_empty
    [of "\<lparr>CISA_KEV_URL = Some ''https://feed.example/kev.json'',
           MONGO_URI = Some ''mongodb://localhost:27017'',
           MONGO_DB = ''etl_db'', MONGO_COLLECTION = ''cisa_kev''\<rparr>"
        "''mongodb://localhost:27017''"
        "\<lparr>requests_get = (\<lambda>url t. Inl RequestException),
           utcnow_isoformat = (\<lambda>i. ''2024-01-01T00:00:00+00:00''),
           get_collection = (\<lambda>uri db coll. Inr ()),
           insert_many = (\<lambda>ds. Inr (length ds))\<rparr>" "[]"]
  by simp

end
